theory Spec2Isabelle
  imports Complex_Main "HOL-Library.Log_Nat" "HOL-Library.Multiset"
begin

section \<open>Python values\<close>

text \<open>
  The module \<^verbatim>\<open>backend/hazard_scoring.py\<close> computes with Python numbers, strings and
  dicts. A number is modelled by its exact value, a rational: every finite double and
  every integer is one, and Python compares an \<^verbatim>\<open>int\<close> with a \<^verbatim>\<open>float\<close> by value, so
  \<^verbatim>\<open>80\<close> and \<^verbatim>\<open>80.0\<close> are the same number here. Infinities and NaN are outside the model.
  The coordinates of a bounding box are Python floats and the image shape is a tuple of
  Python ints, as the docstring of \<^verbatim>\<open>calculate_hazard_score\<close> gives them.
  A string is the list of the bytes of its UTF-8 encoding; an ASCII text is the list of
  its characters. A dict is an association list in insertion order, looked up with
  \<^const>\<open>map_of\<close>.
\<close>

datatype py_error = ZeroDivisionError | ValueError | KeyError string | TypeError

datatype py_value = Num rat | Str string

type_synonym py_dict = "(string \<times> py_value) list"

definition getitem :: "py_dict \<Rightarrow> string \<Rightarrow> py_error + py_value" where
  \<comment> \<open>\<^verbatim>\<open>d[k]\<close>: a missing key raises \<^verbatim>\<open>KeyError\<close>.\<close>
  "getitem d k = (case map_of d k of None \<Rightarrow> Inl (KeyError k) | Some v \<Rightarrow> Inr v)"

definition dict_get :: "('k \<times> 'v) list \<Rightarrow> 'k \<Rightarrow> 'v \<Rightarrow> 'v" where
  \<comment> \<open>\<^verbatim>\<open>d.get(k, default)\<close>\<close>
  "dict_get d k dflt = (case map_of d k of None \<Rightarrow> dflt | Some v \<Rightarrow> v)"

definition lower_char :: "char \<Rightarrow> char" where
  "lower_char c =
     (let n = (of_char c :: nat) in if 65 \<le> n \<and> n \<le> 90 then char_of (n + 32) else c)"

fun lower :: "string \<Rightarrow> string" where
  \<comment> \<open>\<^verbatim>\<open>str.lower()\<close>, as far as a comparison with ASCII text can tell. The letters A to Z
      become a to z, and the Kelvin sign U+212A, whose UTF-8 bytes are E2 84 AA, becomes
      \<^verbatim>\<open>k\<close>: these are the only characters whose lowercase form is ASCII and differs
      from them. Any other character beyond ASCII is left as it is here, where Python may
      put other characters beyond ASCII in its place; the text is then not ASCII in both,
      and it is equal to no key of \<open>class_multipliers\<close> in both.\<close>
  "lower [] = []"
| "lower (c # cs) =
     (if c = CHR 0xE2 \<and> take 2 cs = [CHR 0x84, CHR 0xAA] then CHR ''k'' # lower (drop 2 cs)
      else lower_char c # lower cs)"

definition ascii :: "string \<Rightarrow> bool" where
  "ascii s = list_all (\<lambda>c. (of_char c :: nat) < 128) s"

fun str_nat :: "nat \<Rightarrow> string" where
  \<comment> \<open>The decimal digits of a count, as an f-string field \<^verbatim>\<open>{n}\<close> prints it.\<close>
  "str_nat n =
     (if n < 10 then [char_of (48 + n)] else str_nat (n div 10) @ [char_of (48 + n mod 10)])"


section \<open>Double-precision arithmetic\<close>

text \<open>
  Python's \<^verbatim>\<open>float\<close> is the IEEE 754 binary64 format, and each of \<^verbatim>\<open>+\<close>, \<^verbatim>\<open>-\<close>, \<^verbatim>\<open>*\<close>,
  \<^verbatim>\<open>/\<close> returns the exact result rounded to the nearest double, ties to the even
  significand. \<open>fl64\<close> is that rounding on the rationals: a number in the binade
  \<open>2\<^sup>e \<le> |x| < 2\<^sup>e\<^sup>+\<^sup>1\<close> is rounded to a multiple of \<open>2\<^sup>e\<^sup>-\<^sup>5\<^sup>2\<close>, and below \<open>2\<^sup>-\<^sup>1\<^sup>0\<^sup>2\<^sup>2\<close> to a
  multiple of \<open>2\<^sup>-\<^sup>1\<^sup>0\<^sup>7\<^sup>4\<close> (the subnormal numbers). Overflow to infinity (magnitudes from
  \<open>2\<^sup>1\<^sup>0\<^sup>2\<^sup>4\<close>) is not modelled.
\<close>

definition round_half_even :: "rat \<Rightarrow> int" where
  "round_half_even x =
     (let f = \<lfloor>x\<rfloor>; r = x - of_int f
      in if r < 1 / 2 then f
         else if 1 / 2 < r then f + 1
         else if even f then f else f + 1)"

definition binade :: "rat \<Rightarrow> int" where
  \<comment> \<open>For \<open>0 < x\<close>, the exponent \<open>e\<close> with \<open>2\<^sup>e \<le> x < 2\<^sup>e\<^sup>+\<^sup>1\<close>.\<close>
  "binade x = (if 1 \<le> x then bitlen \<lfloor>x\<rfloor> - 1 else - bitlen (\<lceil>1 / x\<rceil> - 1))"

definition ulp :: "rat \<Rightarrow> rat" where
  "ulp x = 2 powi (max (binade \<bar>x\<bar>) (- 1022) - 52)"

definition fl64 :: "rat \<Rightarrow> rat" where
  "fl64 x = (if x = 0 then 0 else of_int (round_half_even (x / ulp x)) * ulp x)"

definition truediv :: "rat \<Rightarrow> int \<Rightarrow> py_error + rat" where
  \<comment> \<open>\<^verbatim>\<open>a / n\<close> for a float \<open>a\<close> and an int \<open>n\<close>: the int is converted to a double, a
      zero divisor raises. An int from \<open>2\<^sup>1\<^sup>0\<^sup>2\<^sup>4\<close> on has no double and Python raises
      \<^verbatim>\<open>OverflowError\<close> for it; such image shapes are outside the model, as every overflow
      is.\<close>
  "truediv a n = (if n = 0 then Inl ZeroDivisionError else Inr (fl64 (a / fl64 (of_int n))))"

definition py_round2 :: "rat \<Rightarrow> rat" where
  \<comment> \<open>\<^verbatim>\<open>round(x, 2)\<close> of a float: the exact value of \<open>x\<close> rounded to two decimals, ties to
      the even digit, then the double nearest to that decimal. Of an int Python returns the
      int itself, which is the same number up to \<open>2\<^sup>5\<^sup>3\<close>.\<close>
  "py_round2 x = fl64 (of_int (round_half_even (x * 100)) / 100)"


section \<open>The score of one detection\<close>

text \<open>
  A float literal of the source is the double nearest to it: \<^verbatim>\<open>1.2\<close> is \<open>fl64 1.2\<close>, and
  \<^verbatim>\<open>1.0\<close> is the number 1.
\<close>

definition class_multipliers :: "(string \<times> rat) list" where
  "class_multipliers =
     [(''person'', fl64 1.2),
      (''human'', fl64 1.2),
      (''worker'', fl64 1.2),
      (''pedestrian'', fl64 1.2),
      (''child'', fl64 1.3),
      (''animal'', fl64 1.1),
      (''dog'', fl64 1.1),
      (''cat'', fl64 1.1),
      (''vehicle'', fl64 0.9),
      (''car'', fl64 0.9),
      (''truck'', fl64 0.9),
      (''bicycle'', 1),
      (''motorcycle'', 1)]"

definition bbox_area :: "rat \<times> rat \<times> rat \<times> rat \<Rightarrow> rat" where
  "bbox_area bbox =
     (case bbox of (x1, y1, x2, y2) \<Rightarrow>
        let bbox_width = fl64 (x2 - x1);
            bbox_height = fl64 (y2 - y1)
        in fl64 (bbox_width * bbox_height))"

definition hazard_record :: "rat \<Rightarrow> rat \<Rightarrow> py_dict" where
  \<comment> \<open>The \<^verbatim>\<open>if\<close>/\<^verbatim>\<open>elif\<close> chain on \<^verbatim>\<open>final_score\<close> and the returned dict.\<close>
  "hazard_record final_score multiplier =
     (let (hazard_level, estimated_distance, color_code, action) =
            (if 80 \<le> final_score then
               (''CRITICAL'', ''0-2m'', ''#FF0000'', ''STOP IMMEDIATELY'')
             else if 60 \<le> final_score then
               (''HIGH'', ''2-5m'', ''#FF6B00'', ''PROCEED WITH CAUTION'')
             else if 40 \<le> final_score then
               (''MEDIUM'', ''5-8m'', ''#FFD700'', ''MONITOR CLOSELY'')
             else
               (''LOW'', ''8m+'', ''#00FF00'', ''SAFE TO PROCEED''))
      in [(''score'', Num (py_round2 final_score)),
          (''level'', Str hazard_level),
          (''estimated_distance'', Str estimated_distance),
          (''color_code'', Str color_code),
          (''recommended_action'', Str action),
          (''priority'', Num multiplier)])"

definition final_score :: "rat \<Rightarrow> rat \<Rightarrow> rat \<Rightarrow> rat" where
  \<comment> \<open>The two \<^verbatim>\<open>min\<close> lines and the arithmetic between them.\<close>
  "final_score size_ratio bottom_position multiplier =
     (let base_score = fl64 (fl64 (size_ratio * 700) + fl64 (bottom_position * 30));
          base_score = min base_score 100
      in min (fl64 (base_score * multiplier)) 100)"

definition calculate_hazard_score ::
  "rat \<times> rat \<times> rat \<times> rat \<Rightarrow> int list \<Rightarrow> string \<Rightarrow> py_error + py_dict" where
  "calculate_hazard_score bbox image_shape class_name =
     (case bbox of (x1, y1, x2, y2) \<Rightarrow>
        (case take 2 image_shape of
           [image_height, image_width] \<Rightarrow>
             (let image_area = image_height * image_width in
              case truediv (bbox_area bbox) image_area of
                Inl e \<Rightarrow> Inl e
              | Inr size_ratio \<Rightarrow>
                  (case truediv y2 image_height of
                     Inl e \<Rightarrow> Inl e
                   | Inr bottom_position \<Rightarrow>
                       (let multiplier = dict_get class_multipliers (lower class_name) 1
                        in Inr (hazard_record
                                 (final_score size_ratio bottom_position multiplier)
                                 multiplier))))
         | _ \<Rightarrow> Inl ValueError))"


section \<open>The risk of a zone\<close>

definition hazard_score :: "py_dict \<Rightarrow> py_error + rat" where
  \<comment> \<open>\<^verbatim>\<open>d["hazard_score"]\<close> as an operand of a comparison with a number: a missing key
      raises \<^verbatim>\<open>KeyError\<close>, a string raises \<^verbatim>\<open>TypeError\<close>.\<close>
  "hazard_score d =
     (case getitem d ''hazard_score'' of
        Inl e \<Rightarrow> Inl e
      | Inr (Str s) \<Rightarrow> Inl TypeError
      | Inr (Num x) \<Rightarrow> Inr x)"

fun sum_if :: "(rat \<Rightarrow> bool) \<Rightarrow> py_dict list \<Rightarrow> py_error + nat" where
  \<comment> \<open>\<^verbatim>\<open>sum(1 for d in detections if p(d["hazard_score"]))\<close>: the first record that
      raises ends the sum.\<close>
  "sum_if p [] = Inr 0"
| "sum_if p (d # ds) =
     (case hazard_score d of
        Inl e \<Rightarrow> Inl e
      | Inr x \<Rightarrow>
          (case sum_if p ds of
             Inl e \<Rightarrow> Inl e
           | Inr n \<Rightarrow> Inr (if p x then 1 + n else n)))"

fun max_gen :: "py_dict list \<Rightarrow> py_error + rat" where
  \<comment> \<open>\<^verbatim>\<open>max(d["hazard_score"] for d in detections)\<close>: the greatest of the scores; of an
      empty sequence \<^verbatim>\<open>max\<close> raises \<^verbatim>\<open>ValueError\<close>.\<close>
  "max_gen [] = Inl ValueError"
| "max_gen [d] = hazard_score d"
| "max_gen (d # ds) =
     (case hazard_score d of
        Inl e \<Rightarrow> Inl e
      | Inr x \<Rightarrow> (case max_gen ds of Inl e \<Rightarrow> Inl e | Inr m \<Rightarrow> Inr (max x m)))"

definition zone_record :: "nat \<Rightarrow> nat \<Rightarrow> nat \<Rightarrow> rat \<Rightarrow> nat \<Rightarrow> py_dict" where
  \<comment> \<open>The \<^verbatim>\<open>if\<close>/\<^verbatim>\<open>elif\<close> chain on the three counts and the returned dict; the last
      argument is \<^verbatim>\<open>len(detections)\<close>.\<close>
  "zone_record critical_count high_count medium_count max_hazard total_objects =
     (let (overall_risk, recommendation) =
            (if 0 < critical_count then
               (''CRITICAL'',
                ''STOP! '' @ str_nat critical_count @ '' object(s) in critical zone (0-2m)'')
             else if 0 < high_count then
               (''HIGH'',
                ''CAUTION: '' @ str_nat high_count @ '' object(s) in high-risk zone (2-5m)'')
             else if 0 < medium_count then
               (''MEDIUM'',
                ''MONITOR: '' @ str_nat medium_count @ '' object(s) detected (5-8m)'')
             else
               (''LOW'', ''Objects detected at safe distance (8m+)''))
      in [(''overall_risk'', Str overall_risk),
          (''max_hazard_score'', Num (py_round2 max_hazard)),
          (''critical_objects'', Num (of_nat critical_count)),
          (''high_risk_objects'', Num (of_nat high_count)),
          (''medium_risk_objects'', Num (of_nat medium_count)),
          (''total_objects'', Num (of_nat total_objects)),
          (''recommendation'', Str recommendation)])"

definition calculate_zone_risk :: "py_dict list \<Rightarrow> int list \<Rightarrow> py_error + py_dict" where
  "calculate_zone_risk detections image_shape =
     (if detections = [] then
        Inr [(''overall_risk'', Str ''SAFE''),
             (''max_hazard_score'', Num 0),
             (''critical_objects'', Num 0),
             (''high_priority_objects'', Num 0),
             (''recommendation'', Str ''No objects detected. Safe to proceed.'')]
      else
        (case sum_if (\<lambda>x. 80 \<le> x) detections of
           Inl e \<Rightarrow> Inl e
         | Inr critical_count \<Rightarrow>
             (case sum_if (\<lambda>x. 60 \<le> x \<and> x < 80) detections of
                Inl e \<Rightarrow> Inl e
              | Inr high_count \<Rightarrow>
                  (case sum_if (\<lambda>x. 40 \<le> x \<and> x < 60) detections of
                     Inl e \<Rightarrow> Inl e
                   | Inr medium_count \<Rightarrow>
                       (case max_gen detections of
                          Inl e \<Rightarrow> Inl e
                        | Inr max_hazard \<Rightarrow>
                            Inr (zone_record critical_count high_count medium_count
                                   max_hazard (length detections)))))))"


section \<open>The alert shown to the driver\<close>

text \<open>
  The five alert texts of the source start with a symbol beyond ASCII, written here as the
  bytes of its UTF-8 encoding: U+26A0 U+FE0F (a warning sign with its variation selector)
  for CRITICAL and HIGH, U+26A1 (high voltage) for MEDIUM, U+2713 (a check mark) for LOW
  and SAFE.
\<close>

definition warning_sign :: string where
  "warning_sign = [CHR 0xE2, CHR 0x9A, CHR 0xA0, CHR 0xEF, CHR 0xB8, CHR 0x8F]"

definition high_voltage_sign :: string where
  "high_voltage_sign = [CHR 0xE2, CHR 0x9A, CHR 0xA1]"

definition check_mark :: string where
  "check_mark = [CHR 0xE2, CHR 0x9C, CHR 0x93]"

definition alerts :: "(string \<times> string) list" where
  "alerts =
     [(''CRITICAL'',
       warning_sign @ '' CRITICAL ALERT: Object detected in immediate vicinity! STOP DUMPING!''),
      (''HIGH'',
       warning_sign @ '' HIGH RISK: Object approaching danger zone. Proceed with extreme caution.''),
      (''MEDIUM'',
       high_voltage_sign @ '' CAUTION: Object detected nearby. Monitor before dumping.''),
      (''LOW'', check_mark @ '' LOW RISK: Area monitored. Safe to proceed.''),
      (''SAFE'', check_mark @ '' SAFE: No objects detected in monitoring zones.'')]"

definition generate_alert_message :: "py_dict \<Rightarrow> py_error + string" where
  "generate_alert_message zone_risk =
     (case getitem zone_risk ''overall_risk'' of
        Inl e \<Rightarrow> Inl e
      | Inr risk_level \<Rightarrow>
          Inr (case risk_level of
                 Str s \<Rightarrow> dict_get alerts s ''Status unknown''
               | Num n \<Rightarrow> ''Status unknown''))"


section \<open>The multiplier table as the specification words it\<close>

text \<open>
  The specification gives the class multipliers as a table by groups of class names, with
  1.0 for every other name, and its keys are case-insensitive. \<open>spec_multiplier\<close> and
  \<open>spec_lower_char\<close> follow those words: the first is the table, the second replaces a
  capital letter of the alphabet by the small letter at the same place. They are compared
  below with \<open>class_multipliers\<close> and \<open>lower\<close>, which follow the source.
\<close>

definition spec_multiplier :: "string \<Rightarrow> rat" where
  "spec_multiplier k =
     (if k = ''person'' \<or> k = ''human'' \<or> k = ''worker'' \<or> k = ''pedestrian'' then fl64 1.2
      else if k = ''child'' then fl64 1.3
      else if k = ''animal'' \<or> k = ''dog'' \<or> k = ''cat'' then fl64 1.1
      else if k = ''vehicle'' \<or> k = ''car'' \<or> k = ''truck'' then fl64 0.9
      else if k = ''bicycle'' \<or> k = ''motorcycle'' then 1
      else 1)"

definition spec_lower_char :: "char \<Rightarrow> char" where
  "spec_lower_char c =
     (case map_of (zip ''ABCDEFGHIJKLMNOPQRSTUVWXYZ'' ''abcdefghijklmnopqrstuvwxyz'') c of
        Some d \<Rightarrow> d
      | None \<Rightarrow> c)"


section \<open>Properties of the rounding\<close>

text \<open>
  Rounding to the nearest integer and rounding to the nearest double are monotone and
  odd, and they keep zero and the integers in place. These are the only facts about the
  arithmetic that the bounds on the score need.
\<close>

lemma rhe_cases: "round_half_even x = \<lfloor>x\<rfloor> \<or> round_half_even x = \<lfloor>x\<rfloor> + 1"
  by (simp add: round_half_even_def Let_def)

lemma rhe_of_int: "round_half_even (of_int n) = n"
  by (simp add: round_half_even_def Let_def)

lemma rhe_mono:
  assumes "x \<le> y"
  shows "round_half_even x \<le> round_half_even y"
proof (cases "\<lfloor>x\<rfloor> = \<lfloor>y\<rfloor>")
  case True
  then show ?thesis using assms
    by (auto simp add: round_half_even_def Let_def)
next
  case False
  with assms have "\<lfloor>x\<rfloor> < \<lfloor>y\<rfloor>"
    by (simp add: floor_mono order.strict_iff_order)
  moreover have "round_half_even x \<le> \<lfloor>x\<rfloor> + 1" using rhe_cases [of x] by auto
  moreover have "\<lfloor>y\<rfloor> \<le> round_half_even y" using rhe_cases [of y] by auto
  ultimately show ?thesis by linarith
qed

lemma rhe_minus: "round_half_even (- x) = - round_half_even x"
proof (cases "x \<in> \<int>")
  case True
  then obtain n where "x = of_int n" by (auto elim: Ints_cases)
  then show ?thesis 
    by (metis of_int_minus rhe_of_int)
next
  case False
  then have ne: "x \<noteq> of_int \<lfloor>x\<rfloor>"
    by (metis Ints_of_int)
  then have c: "\<lceil>x\<rceil> = \<lfloor>x\<rfloor> + 1"
    by (simp add: ceiling_altdef)
  have f: "\<lfloor>- x\<rfloor> = - \<lfloor>x\<rfloor> - 1" using c by (simp add: ceiling_def)
  show ?thesis
    unfolding round_half_even_def Let_def f
    by (auto simp add: algebra_simps)
qed

lemma binade_bounds:
  assumes "0 < x"
  shows "2 powi binade x \<le> x \<and> x < 2 powi (binade x + 1)"
proof (cases "1 \<le> x")
  case True
  define f where "f = \<lfloor>x\<rfloor>"
  have fpos: "0 < f" using True by (simp add: f_def)
  have b: "binade x = bitlen f - 1" using True by (simp add: binade_def f_def)
  have bl: "1 \<le> bitlen f" using fpos bitlen_eq_zero_iff [of f] bitlen_nonneg [of f] by linarith
  from bitlen_bounds [OF fpos]
  have lo: "2 ^ nat (bitlen f - 1) \<le> f" and hi: "f < 2 ^ nat (bitlen f)" by auto
  have "(2::rat) powi (bitlen f - 1) = of_int (2 ^ nat (bitlen f - 1))"
    using bl by (simp add: power_int_def)
  also have "\<dots> \<le> of_int f" using lo by (simp only: of_int_le_iff)
  also have "\<dots> \<le> x" by (simp add: f_def)
  finally have 1: "2 powi binade x \<le> x" by (simp add: b)
  have "f + 1 \<le> 2 ^ nat (bitlen f)" using hi by simp
  then have "(of_int (f + 1) :: rat) \<le> of_int (2 ^ nat (bitlen f))" by (simp only: of_int_le_iff)
  moreover have "x < of_int (f + 1)" unfolding f_def by linarith
  moreover have "(2::rat) powi (bitlen f) = of_int (2 ^ nat (bitlen f))"
    using bl by (simp add: power_int_def)
  ultimately have 2: "x < 2 powi (binade x + 1)" by (simp add: b)
  from 1 2 show ?thesis by simp
next
  case False
  define n where "n = \<lceil>1 / x\<rceil> - 1"
  define m where "m = bitlen n"
  have x1: "x < 1" using False by simp
  have inv: "1 < 1 / x" using assms x1 by simp
  have npos: "0 < n" using inv by (simp add: n_def less_ceiling_iff)
  have b: "binade x = - m" using False by (simp add: binade_def n_def m_def)
  have ml: "1 \<le> m" using npos bitlen_eq_zero_iff [of n] bitlen_nonneg [of n] by (simp add: m_def)
  from bitlen_bounds [OF npos]
  have lo: "2 ^ nat (m - 1) \<le> n" and hi: "n < 2 ^ nat m" by (auto simp: m_def)
  have nlt: "of_int n < 1 / x" unfolding n_def by linarith
  have nge: "1 / x \<le> of_int (n + 1)" unfolding n_def by simp
  have "n + 1 \<le> 2 ^ nat m" using hi by simp
  then have "(of_int (n + 1) :: rat) \<le> of_int (2 ^ nat m)" by (simp only: of_int_le_iff)
  with nge have "1 / x \<le> of_int (2 ^ nat m)" by (rule order_trans)
  then have "1 / x \<le> 2 ^ nat m" by simp
  then have "1 / 2 ^ nat m \<le> x" using assms
    by (simp add: field_simps)
  moreover have "(2::rat) powi (- m) = 1 / 2 ^ nat m" using ml
    by (simp add: power_int_def field_simps)
  ultimately have 1: "2 powi binade x \<le> x" by (simp add: b)
  have "(of_int (2 ^ nat (m - 1)) :: rat) \<le> of_int n" using lo by (simp only: of_int_le_iff)
  then have "(of_int (2 ^ nat (m - 1)) :: rat) < 1 / x" using nlt by (rule order_le_less_trans)
  then have "2 ^ nat (m - 1) < 1 / x" by simp
  then have "x < 1 / 2 ^ nat (m - 1)" using assms
    by (simp add: field_simps)
  moreover have "(2::rat) powi (- m + 1) = 1 / 2 ^ nat (m - 1)" using ml
    by (cases "m = 1") (simp_all add: power_int_def field_simps nat_diff_distrib)
  ultimately have 2: "x < 2 powi (binade x + 1)" by (simp add: b)
  from 1 2 show ?thesis by simp
qed

lemma ulp_pos: "0 < ulp x"
  by (simp add: ulp_def)

lemma ulp_minus: "ulp (- x) = ulp x"
  by (simp add: ulp_def)


lemma fl64_minus: "fl64 (- x) = - fl64 x"
  by (simp add: fl64_def ulp_minus rhe_minus)

lemma fl64_nonneg:
  assumes "0 \<le> x"
  shows "0 \<le> fl64 x"
proof -
  have "0 \<le> x / ulp x" using assms ulp_pos [of x] by simp
  then have "round_half_even 0 \<le> round_half_even (x / ulp x)" by (rule rhe_mono)
  then have "0 \<le> round_half_even (x / ulp x)" using rhe_of_int [of 0] by simp
  then show ?thesis using ulp_pos [of x] by (simp add: fl64_def)
qed

lemma binade_mono:
  assumes "0 < x" and "x \<le> y"
  shows "binade x \<le> binade y"
proof -
  have "0 < y" using assms by simp
  from binade_bounds [OF assms(1)] binade_bounds [OF this] assms(2)
  have lt: "(2::rat) powi binade x < 2 powi (binade y + 1)" by linarith
  have "\<not> binade y + 1 \<le> binade x"
  proof
    assume "binade y + 1 \<le> binade x"
    then have "(2::rat) powi (binade y + 1) \<le> 2 powi binade x"
      by (rule power_int_increasing) simp
    with lt show False by simp
  qed
  then show ?thesis by simp
qed

lemma fl64_mono_pos:
  assumes "0 < x" and "x \<le> y"
  shows "fl64 x \<le> fl64 y"
proof -
  have ypos: "0 < y" using assms by simp
  define ex where "ex = max (binade x) (- 1022)"
  define ey where "ey = max (binade y) (- 1022)"
  have ux: "ulp x = 2 powi (ex - 52)" using assms(1) by (simp add: ulp_def ex_def)
  have uy: "ulp y = 2 powi (ey - 52)" using ypos by (simp add: ulp_def ey_def)
  have fx: "fl64 x = of_int (round_half_even (x / ulp x)) * ulp x"
    using assms(1) by (simp add: fl64_def)
  have fy: "fl64 y = of_int (round_half_even (y / ulp y)) * ulp y"
    using ypos by (simp add: fl64_def)
  have le: "ex \<le> ey" using binade_mono [OF assms] by (simp add: ex_def ey_def)
  show ?thesis
  proof (cases "ex = ey")
    case True
    then have u: "ulp x = ulp y" by (simp add: ux uy)
    have "x / ulp y \<le> y / ulp y" using assms(2) ulp_pos [of y] by (simp add: divide_right_mono)
    then have "round_half_even (x / ulp y) \<le> round_half_even (y / ulp y)" by (rule rhe_mono)
    then show ?thesis using ulp_pos [of y] by (simp add: fx fy u)
  next
    case False
    with le have lt: "ex + 1 \<le> ey" by simp
    then have bey: "binade y = ey" by (simp add: ey_def ex_def)
    have "x < 2 powi (binade x + 1)" using binade_bounds [OF assms(1)] by simp
    also have "\<dots> \<le> 2 powi (ex + 1)" by (rule power_int_increasing) (simp_all add: ex_def)
    finally have "x < 2 powi (ex + 1)" .
    then have "x / ulp x \<le> 2 powi (ex + 1) / ulp x" using ulp_pos [of x]
      by (simp add: divide_right_mono)
    also have "\<dots> = 2 powi 53" by (simp add: ux power_int_diff [symmetric])
    also have "\<dots> = of_int (2 ^ 53)" by (simp add: power_int_def)
    finally have "round_half_even (x / ulp x) \<le> round_half_even (of_int (2 ^ 53))" by (rule rhe_mono)
    then have "round_half_even (x / ulp x) \<le> 2 ^ 53" by (simp only: rhe_of_int)
    then have "(of_int (round_half_even (x / ulp x)) :: rat) \<le> of_int (2 ^ 53)" by (simp only: of_int_le_iff)
    then have "fl64 x \<le> of_int (2 ^ 53) * ulp x" using ulp_pos [of x]
      by (simp only: fx mult_right_mono less_imp_le)
    also have "of_int (2 ^ 53) * ulp x = 2 powi (ex + 1)"
      using power_int_add [of "2::rat" 53 "ex - 52"] by (simp add: ux add.commute)
    also have "\<dots> \<le> 2 powi ey" using lt by (simp add: power_int_increasing)
    finally have 1: "fl64 x \<le> 2 powi ey" .
    have "2 powi ey \<le> y" using binade_bounds [OF ypos] by (simp add: bey)
    then have "2 powi ey / ulp y \<le> y / ulp y" using ulp_pos [of y] by (simp add: divide_right_mono)
    moreover have "2 powi ey / ulp y = 2 powi 52" by (simp add: uy power_int_diff [symmetric])
    moreover have "(2::rat) powi 52 = of_int (2 ^ 52)" by (simp add: power_int_def)
    ultimately have "of_int (2 ^ 52) \<le> y / ulp y" by simp
    then have "round_half_even (of_int (2 ^ 52)) \<le> round_half_even (y / ulp y)" by (rule rhe_mono)
    then have "2 ^ 52 \<le> round_half_even (y / ulp y)" by (simp only: rhe_of_int)
    then have "(of_int (2 ^ 52) :: rat) \<le> of_int (round_half_even (y / ulp y))" by (simp only: of_int_le_iff)
    then have "of_int (2 ^ 52) * ulp y \<le> fl64 y" using ulp_pos [of y]
      by (simp only: fy mult_right_mono less_imp_le)
    moreover have "of_int (2 ^ 52) * ulp y = 2 powi ey"
      using power_int_add [of "2::rat" 52 "ey - 52"] by (simp add: uy add.commute)
    ultimately have 2: "2 powi ey \<le> fl64 y" by simp
    from 1 2 show ?thesis by simp
  qed
qed

lemma fl64_mono:
  assumes "x \<le> y"
  shows "fl64 x \<le> fl64 y"
proof -
  consider "0 < x" | "x \<le> 0" "0 \<le> y" | "y < 0" using assms by linarith
  then show ?thesis
  proof cases
    case 1
    then show ?thesis using assms by (rule fl64_mono_pos)
  next
    case 2
    have "0 \<le> fl64 (- x)" using 2 by (simp add: fl64_nonneg)
    then have "fl64 x \<le> 0" by (simp add: fl64_minus)
    moreover have "0 \<le> fl64 y" using 2 by (simp add: fl64_nonneg)
    ultimately show ?thesis by simp
  next
    case 3
    then have "0 < - y" "- y \<le> - x" using assms by simp_all
    then have "fl64 (- y) \<le> fl64 (- x)" by (rule fl64_mono_pos)
    then show ?thesis by (simp add: fl64_minus)
  qed
qed

lemma py_round2_mono:
  assumes "x \<le> y"
  shows "py_round2 x \<le> py_round2 y"
proof -
  have "x * 100 \<le> y * 100" using assms by simp
  then have "round_half_even (x * 100) \<le> round_half_even (y * 100)" by (rule rhe_mono)
  then have "(of_int (round_half_even (x * 100)) :: rat) / 100 \<le> of_int (round_half_even (y * 100)) / 100"
    by (simp add: divide_right_mono)
  then show ?thesis unfolding py_round2_def by (rule fl64_mono)
qed

lemma fl64_100: "fl64 100 = 100"
  by code_simp

lemma py_round2_0: "py_round2 0 = 0"
  by code_simp

lemma py_round2_100: "py_round2 100 = 100"
  by code_simp


section \<open>Properties of the score\<close>

text \<open>
  The multiplier of a class lies between 0 and the double 1.3, the score grows with the
  signed area of the box, and the rounding of the returned score keeps it between the
  bounds of \<^verbatim>\<open>final_score\<close>.
\<close>

lemma class_multipliers_lookup:
  "map_of class_multipliers k =
     (if k = ''person'' \<or> k = ''human'' \<or> k = ''worker'' \<or> k = ''pedestrian'' then Some (fl64 1.2)
      else if k = ''child'' then Some (fl64 1.3)
      else if k = ''animal'' \<or> k = ''dog'' \<or> k = ''cat'' then Some (fl64 1.1)
      else if k = ''vehicle'' \<or> k = ''car'' \<or> k = ''truck'' then Some (fl64 0.9)
      else if k = ''bicycle'' \<or> k = ''motorcycle'' then Some 1
      else None)"
  unfolding class_multipliers_def by simp

lemma multiplier_nonneg: "0 \<le> dict_get class_multipliers k 1"
  unfolding dict_get_def class_multipliers_lookup by (simp add: fl64_nonneg)

lemma final_score_bounds:
  assumes "0 \<le> size_ratio" and "0 \<le> bottom_position" and "0 \<le> multiplier"
  shows "0 \<le> final_score size_ratio bottom_position multiplier"
    and "final_score size_ratio bottom_position multiplier \<le> 100"
proof -
  define base where "base = min (fl64 (fl64 (size_ratio * 700) + fl64 (bottom_position * 30))) 100"
  have "0 \<le> fl64 (size_ratio * 700)" using assms(1) by (intro fl64_nonneg) simp
  moreover have "0 \<le> fl64 (bottom_position * 30)" using assms(2) by (intro fl64_nonneg) simp
  ultimately have "0 \<le> fl64 (fl64 (size_ratio * 700) + fl64 (bottom_position * 30))"
    by (intro fl64_nonneg) simp
  then have "0 \<le> base" by (simp add: base_def)
  then have "0 \<le> fl64 (base * multiplier)" using assms(3) by (intro fl64_nonneg) simp
  moreover have "final_score size_ratio bottom_position multiplier = min (fl64 (base * multiplier)) 100"
    by (simp add: final_score_def base_def Let_def)
  ultimately show "0 \<le> final_score size_ratio bottom_position multiplier"
    and "final_score size_ratio bottom_position multiplier \<le> 100"
    by simp_all
qed

lemma py_round2_bounds:
  assumes "0 \<le> x" and "x \<le> 100"
  shows "0 \<le> py_round2 x" and "py_round2 x \<le> 100"
  using py_round2_mono [OF assms(1)] py_round2_mono [OF assms(2)]
  by (simp_all add: py_round2_0 py_round2_100)

lemma hazard_record_score:
  "map_of (hazard_record f m) ''score'' = Some (Num (py_round2 f))"
  by (simp add: hazard_record_def Let_def split: prod.splits)

lemma hazard_record_priority:
  "map_of (hazard_record f m) ''priority'' = Some (Num m)"
  by (simp add: hazard_record_def Let_def split: prod.splits)

lemma bbox_area_nonneg:
  assumes "x1 \<le> x2" and "y1 \<le> y2"
  shows "0 \<le> bbox_area (x1, y1, x2, y2)"
proof -
  have "0 \<le> fl64 (x2 - x1)" "0 \<le> fl64 (y2 - y1)" using assms by (simp_all add: fl64_nonneg)
  then have "0 \<le> fl64 (fl64 (x2 - x1) * fl64 (y2 - y1))" by (intro fl64_nonneg) simp
  then show ?thesis by (simp add: bbox_area_def Let_def)
qed

lemma calculate_hazard_score_steps:
  "calculate_hazard_score (x1, y1, x2, y2) (image_height # image_width # rest) class_name =
     (case truediv (bbox_area (x1, y1, x2, y2)) (image_height * image_width) of
        Inl e \<Rightarrow> Inl e
      | Inr size_ratio \<Rightarrow>
          (case truediv y2 image_height of
             Inl e \<Rightarrow> Inl e
           | Inr bottom_position \<Rightarrow>
               Inr (hazard_record
                      (final_score size_ratio bottom_position
                         (dict_get class_multipliers (lower class_name) 1))
                      (dict_get class_multipliers (lower class_name) 1))))"
  by (simp add: calculate_hazard_score_def Let_def split: sum.splits)

lemma truediv_nonneg:
  assumes "0 \<le> a" and "0 < n"
  shows "\<exists>q. truediv a n = Inr q \<and> 0 \<le> q"
proof -
  have "0 \<le> fl64 (of_int n)" using assms(2) by (intro fl64_nonneg) simp
  then have "0 \<le> a / fl64 (of_int n)" using assms(1) by simp
  then have "0 \<le> fl64 (a / fl64 (of_int n))" by (rule fl64_nonneg)
  then show ?thesis using assms(2) by (simp add: truediv_def)
qed

lemma multiplier_spec: "dict_get class_multipliers k 1 = spec_multiplier k"
  unfolding dict_get_def class_multipliers_lookup spec_multiplier_def by simp

lemma calculate_hazard_score_record:
  assumes "calculate_hazard_score bbox image_shape class_name = Inr r"
  shows "\<exists>f. (\<exists>size_ratio bottom_position.
                 f = final_score size_ratio bottom_position
                       (dict_get class_multipliers (lower class_name) 1))
           \<and> r = hazard_record f (dict_get class_multipliers (lower class_name) 1)"
  using assms
  by (auto simp add: calculate_hazard_score_def Let_def split: prod.splits list.splits sum.splits)

lemma calculate_hazard_score_cong:
  assumes "dict_get class_multipliers (lower a) 1 = dict_get class_multipliers (lower b) 1"
  shows "calculate_hazard_score bbox image_shape a = calculate_hazard_score bbox image_shape b"
  using assms
  by (simp add: calculate_hazard_score_def Let_def split: prod.splits list.splits sum.splits)

lemma unknown_class_multiplier:
  assumes "k \<notin> fst ` set class_multipliers"
  shows "dict_get class_multipliers k 1 = 1"
proof -
  have "map_of class_multipliers k = None" using assms by (simp add: map_of_eq_None_iff)
  then show ?thesis by (simp add: dict_get_def)
qed

lemma bicycle_multiplier: "dict_get class_multipliers (lower ''bicycle'') 1 = 1"
  by code_simp

lemma motorcycle_multiplier: "dict_get class_multipliers (lower ''motorcycle'') 1 = 1"
  by code_simp

lemma truediv_ok: "n \<noteq> 0 \<Longrightarrow> truediv a n = Inr (fl64 (a / fl64 (of_int n)))"
  by (simp add: truediv_def)














text \<open>
  On ASCII text \<open>lower\<close> replaces each capital letter of the alphabet by its small letter
  and changes nothing else.
\<close>

lemma lower_char_capitals:
  "list_all (\<lambda>c. lower_char c = spec_lower_char c) ''ABCDEFGHIJKLMNOPQRSTUVWXYZ''"
  by code_simp

lemma capital_codes:
  "map (of_char :: char \<Rightarrow> nat) ''ABCDEFGHIJKLMNOPQRSTUVWXYZ'' = [65..<91]"
  by code_simp

lemma lower_char_spec: "lower_char c = spec_lower_char c"
proof (cases "c \<in> set ''ABCDEFGHIJKLMNOPQRSTUVWXYZ''")
  case True
  with lower_char_capitals show ?thesis unfolding list_all_iff by (rule bspec)
next
  case False
  have "\<not> (65 \<le> (of_char c :: nat) \<and> (of_char c :: nat) \<le> 90)"
  proof
    assume "65 \<le> (of_char c :: nat) \<and> (of_char c :: nat) \<le> 90"
    then have "(of_char c :: nat) \<in> {65..<91}" by auto
    then have "(of_char c :: nat) \<in> set [65..<91]" by (simp only: set_upt)
    then have "(of_char c :: nat) \<in> of_char ` set ''ABCDEFGHIJKLMNOPQRSTUVWXYZ''"
      by (simp only: capital_codes [symmetric] set_map)
    then obtain d where "d \<in> set ''ABCDEFGHIJKLMNOPQRSTUVWXYZ''"
      and "(of_char c :: nat) = of_char d"
      by (rule imageE)
    then have "c \<in> set ''ABCDEFGHIJKLMNOPQRSTUVWXYZ''" by (simp only: of_char_eq_iff)
    with False show False by contradiction
  qed
  then have low: "lower_char c = c" by (auto simp add: lower_char_def Let_def)
  have len: "length ''ABCDEFGHIJKLMNOPQRSTUVWXYZ'' = length ''abcdefghijklmnopqrstuvwxyz''" by simp
  have "map_of (zip ''ABCDEFGHIJKLMNOPQRSTUVWXYZ'' ''abcdefghijklmnopqrstuvwxyz'') c = None"
    using False map_of_zip_is_None [OF len, of c] by blast
  then have "spec_lower_char c = c" by (simp only: spec_lower_char_def option.case)
  with low show ?thesis by simp
qed

lemma lower_ascii: "ascii s \<Longrightarrow> lower s = map spec_lower_char s"
proof (induction s)
  case Nil
  then show ?case by simp
next
  case (Cons c s)
  then have small: "(of_char c :: nat) < 128" and rest: "ascii s" by (simp_all add: ascii_def)
  have "c \<noteq> CHR 0xE2"
  proof
    assume "c = CHR 0xE2"
    with small show False by simp
  qed
  with Cons.IH [OF rest] show ?case by (simp add: lower_char_spec)
qed


section \<open>Properties of the zone risk\<close>

text \<open>
  When every detection carries a number under \<^verbatim>\<open>hazard_score\<close>, the three sums count the
  scores of each bucket and \<^verbatim>\<open>max\<close> returns their maximum, so the result is a function of
  the multiset of the scores.
\<close>

lemma sum_if_scores:
  "map hazard_score ds = map Inr xs \<Longrightarrow> sum_if p ds = Inr (length (filter p xs))"
proof (induction ds arbitrary: xs)
  case Nil
  then show ?case by simp
next
  case (Cons d ds)
  then obtain x xs' where xs: "xs = x # xs'" by (cases xs) auto
  with Cons.prems have "hazard_score d = Inr x" and "map hazard_score ds = map Inr xs'"
    by simp_all
  with Cons.IH [of xs'] show ?case by (simp add: xs)
qed

lemma max_gen_scores:
  "map hazard_score ds = map Inr xs \<Longrightarrow> ds \<noteq> [] \<Longrightarrow> max_gen ds = Inr (Max (set xs))"
proof (induction ds arbitrary: xs rule: max_gen.induct)
  case 1
  then show ?case by simp
next
  case (2 d)
  then show ?case by (cases xs) auto
next
  case (3 d d' ds)
  then obtain x xs' where xs: "xs = x # xs'" by (cases xs) auto
  with "3.prems" have d: "hazard_score d = Inr x" and rest: "map hazard_score (d' # ds) = map Inr xs'"
    by simp_all
  then have ne: "xs' \<noteq> []" by auto
  have "max_gen (d' # ds) = Inr (Max (set xs'))" using "3.IH" [OF d rest] by simp
  then show ?case using d ne by (simp add: xs)
qed

lemma zone_risk_scores:
  assumes "map hazard_score ds = map Inr xs" and "ds \<noteq> []"
  shows "calculate_zone_risk ds image_shape =
     Inr (zone_record (length (filter (\<lambda>x. 80 \<le> x) xs))
            (length (filter (\<lambda>x. 60 \<le> x \<and> x < 80) xs))
            (length (filter (\<lambda>x. 40 \<le> x \<and> x < 60) xs))
            (Max (set xs)) (length xs))"
proof -
  have "length ds = length xs" using assms(1) by (metis length_map)
  then show ?thesis
    using assms(2) by (simp add: calculate_zone_risk_def sum_if_scores [OF assms(1)]
      max_gen_scores [OF assms])
qed

lemma zone_record_overall_risk:
  "map_of (zone_record c h m mx n) ''overall_risk'' =
     Some (Str (if 0 < c then ''CRITICAL'' else if 0 < h then ''HIGH''
                else if 0 < m then ''MEDIUM'' else ''LOW''))"
  by (simp add: zone_record_def)

lemma zone_record_counts:
  "map_of (zone_record c h m mx n) ''critical_objects'' = Some (Num (of_nat c))"
  "map_of (zone_record c h m mx n) ''high_risk_objects'' = Some (Num (of_nat h))"
  "map_of (zone_record c h m mx n) ''medium_risk_objects'' = Some (Num (of_nat m))"
  by (simp_all add: zone_record_def split: prod.splits)

lemma filter_nonempty_iff: "0 < length (filter p xs) \<longleftrightarrow> (\<exists>x\<in>set xs. p x)"
  by (simp add: filter_empty_conv)

lemma zone_risk_total:
  assumes "map hazard_score ds = map Inr xs"
  shows "\<exists>r. calculate_zone_risk ds image_shape = Inr r"
proof (cases "ds = []")
  case True
  then show ?thesis by (simp add: calculate_zone_risk_def)
next
  case False
  with assms show ?thesis by (simp add: zone_risk_scores)
qed

lemma map_Inr_projr:
  "(\<And>y. y \<in> set ys \<Longrightarrow> \<exists>x. y = Inr x) \<Longrightarrow> map Inr (map projr ys) = ys"
proof (induction ys)
  case Nil
  then show ?case by simp
next
  case (Cons y ys)
  obtain x where "y = Inr x" using Cons.prems [of y] by auto
  moreover have "map Inr (map projr ys) = ys" using Cons by simp
  ultimately show ?case by simp
qed

lemma image_projr: "image_mset projr (mset (map Inr xs)) = mset xs"
  by (induction xs) simp_all

lemma scores_of_permutation:
  assumes "map hazard_score ds = map Inr xs" and "mset ds' = mset ds"
  shows "\<exists>xs'. map hazard_score ds' = map Inr xs' \<and> mset xs' = mset xs"
proof -
  define ys where "ys = map hazard_score ds'"
  have "mset ys = image_mset hazard_score (mset ds')" by (simp add: ys_def)
  also have "\<dots> = image_mset hazard_score (mset ds)" by (simp only: assms(2))
  also have "\<dots> = mset (map hazard_score ds)" by simp
  finally have m: "mset ys = mset (map Inr xs)" by (simp only: assms(1))
  then have "set ys = set (map Inr xs)" by (rule mset_eq_setD)
  then have "\<And>y. y \<in> set ys \<Longrightarrow> \<exists>x. y = Inr x" by auto
  then have ys: "map Inr (map projr ys) = ys" by (rule map_Inr_projr)
  have "mset (map projr ys) = image_mset projr (mset ys)" by simp
  also have "\<dots> = mset xs" by (simp only: m image_projr)
  finally have "mset (map projr ys) = mset xs" .
  moreover have "map hazard_score ds' = map Inr (map projr ys)"
    using ys [symmetric] by (simp only: ys_def [symmetric])
  ultimately show ?thesis by (intro exI [of _ "map projr ys"] conjI)
qed

lemma zone_risk_mset:
  assumes "map hazard_score ds = map Inr xs" and "map hazard_score ds' = map Inr xs'"
    and "mset xs' = mset xs"
  shows "calculate_zone_risk ds' image_shape' = calculate_zone_risk ds image_shape"
proof (cases "ds = []")
  case True
  then have "xs = []" using assms(1) by simp
  then have "xs' = []" using assms(3) by simp
  then have "ds' = []" using assms(2) by simp
  with True show ?thesis by (simp add: calculate_zone_risk_def)
next
  case False
  then have "xs \<noteq> []" using assms(1) by auto
  then have "xs' \<noteq> []" using assms(3) by auto
  then have ne: "ds' \<noteq> []" using assms(2) by auto
  have len: "\<And>p. length (filter p xs') = length (filter p xs)"
    using assms(3) by (metis mset_filter size_mset)
  have "set xs' = set xs" using assms(3) by (rule mset_eq_setD)
  moreover have "length xs' = length xs" using assms(3) by (rule mset_eq_length)
  ultimately show ?thesis
    by (simp only: zone_risk_scores [OF assms(1) False] zone_risk_scores [OF assms(2) ne] len)
qed

lemma hazard_record_no_hazard_score: "hazard_score (hazard_record f m) = Inl (KeyError ''hazard_score'')"
  by (simp add: hazard_record_def hazard_score_def getitem_def split: prod.splits)

lemma zone_risk_key_error:
  assumes "hazard_score d = Inl e"
  shows "calculate_zone_risk (d # rest) image_shape = Inl e"
  using assms by (simp add: calculate_zone_risk_def)


section \<open>The score at some inputs\<close>

text \<open>
  The function evaluated step by step, in a 1000 by 1000 image with three channels. The
  intermediate values are doubles, written as fractions; a returned score or multiplier
  such as \<open>fl64 3.6\<close> is the double that Python prints as \<^verbatim>\<open>3.6\<close>.
\<close>

text \<open>At \<open>(0, 0, 100, 100)\<close> and \<^verbatim>\<open>person\<close>: the box of a person far away, in the upper left corner.\<close>

lemma small_person_area: "bbox_area (0, 0, 100, 100) = 10000"
  by code_simp

lemma small_person_ratio:
  "truediv 10000 (1000 * 1000) = Inr (5764607523034235 / 576460752303423488)"
  by code_simp

lemma small_person_bottom:
  "truediv 100 1000 = Inr (3602879701896397 / 36028797018963968)"
  by code_simp

lemma small_person_multiplier: "dict_get class_multipliers (lower ''person'') 1 = fl64 1.2"
  by code_simp

lemma small_person_final:
  "final_score (5764607523034235 / 576460752303423488) (3602879701896397 / 36028797018963968) (fl64 1.2) = 12"
  by code_simp

lemma small_person_record:
  "hazard_record 12 (fl64 1.2) =
     [(''score'', Num 12),
          (''level'', Str ''LOW''),
          (''estimated_distance'', Str ''8m+''),
          (''color_code'', Str ''#00FF00''),
          (''recommended_action'', Str ''SAFE TO PROCEED''),
          (''priority'', Num (fl64 1.2))]"
  by code_simp

lemma small_person_result:
  "calculate_hazard_score (0, 0, 100, 100) [1000, 1000, 3] ''person'' =
     Inr [(''score'', Num 12),
          (''level'', Str ''LOW''),
          (''estimated_distance'', Str ''8m+''),
          (''color_code'', Str ''#00FF00''),
          (''recommended_action'', Str ''SAFE TO PROCEED''),
          (''priority'', Num (fl64 1.2))]"
  by (simp only: calculate_hazard_score_steps small_person_area small_person_ratio small_person_bottom small_person_multiplier
        small_person_final small_person_record sum.case)


text \<open>At \<open>(0, 721, 256, 1000)\<close> and \<^verbatim>\<open>bicycle\<close>: a bicycle whose unrounded score is just below 80.\<close>

lemma near80_area: "bbox_area (0, 721, 256, 1000) = 71424"
  by code_simp

lemma near80_ratio:
  "truediv 71424 (1000 * 1000) = Inr (5146641596564965 / 72057594037927936)"
  by code_simp

lemma near80_bottom:
  "truediv 1000 1000 = Inr 1"
  by code_simp

lemma near80_multiplier: "dict_get class_multipliers (lower ''bicycle'') 1 = 1"
  by code_simp

lemma near80_final:
  "final_score (5146641596564965 / 72057594037927936) 1 1 = 703659294278969 / 8796093022208"
  by code_simp

lemma near80_record:
  "hazard_record (703659294278969 / 8796093022208) 1 =
     [(''score'', Num 80),
          (''level'', Str ''HIGH''),
          (''estimated_distance'', Str ''2-5m''),
          (''color_code'', Str ''#FF6B00''),
          (''recommended_action'', Str ''PROCEED WITH CAUTION''),
          (''priority'', Num 1)]"
  by code_simp

lemma near80_result:
  "calculate_hazard_score (0, 721, 256, 1000) [1000, 1000, 3] ''bicycle'' =
     Inr [(''score'', Num 80),
          (''level'', Str ''HIGH''),
          (''estimated_distance'', Str ''2-5m''),
          (''color_code'', Str ''#FF6B00''),
          (''recommended_action'', Str ''PROCEED WITH CAUTION''),
          (''priority'', Num 1)]"
  by (simp only: calculate_hazard_score_steps near80_area near80_ratio near80_bottom near80_multiplier
        near80_final near80_record sum.case)


























text \<open>At \<open>(0, 0, 100, 100)\<close> and \<^verbatim>\<open>drone\<close>: a class that the table does not have.\<close>

lemma small_drone_area: "bbox_area (0, 0, 100, 100) = 10000"
  by code_simp

lemma small_drone_ratio:
  "truediv 10000 (1000 * 1000) = Inr (5764607523034235 / 576460752303423488)"
  by code_simp

lemma small_drone_bottom:
  "truediv 100 1000 = Inr (3602879701896397 / 36028797018963968)"
  by code_simp

lemma small_drone_multiplier: "dict_get class_multipliers (lower ''drone'') 1 = 1"
  by code_simp

lemma small_drone_final:
  "final_score (5764607523034235 / 576460752303423488) (3602879701896397 / 36028797018963968) 1 = 10"
  by code_simp

lemma small_drone_record:
  "hazard_record 10 1 =
     [(''score'', Num 10),
          (''level'', Str ''LOW''),
          (''estimated_distance'', Str ''8m+''),
          (''color_code'', Str ''#00FF00''),
          (''recommended_action'', Str ''SAFE TO PROCEED''),
          (''priority'', Num 1)]"
  by code_simp

lemma small_drone_result:
  "calculate_hazard_score (0, 0, 100, 100) [1000, 1000, 3] ''drone'' =
     Inr [(''score'', Num 10),
          (''level'', Str ''LOW''),
          (''estimated_distance'', Str ''8m+''),
          (''color_code'', Str ''#00FF00''),
          (''recommended_action'', Str ''SAFE TO PROCEED''),
          (''priority'', Num 1)]"
  by (simp only: calculate_hazard_score_steps small_drone_area small_drone_ratio small_drone_bottom small_drone_multiplier
        small_drone_final small_drone_record sum.case)









text \<open>At \<open>(0, 0, 100, 100)\<close> and \<^verbatim>\<open>PERSON\<close>: the class of a person in capital letters.\<close>

lemma shouted_person_area: "bbox_area (0, 0, 100, 100) = 10000"
  by code_simp

lemma shouted_person_ratio:
  "truediv 10000 (1000 * 1000) = Inr (5764607523034235 / 576460752303423488)"
  by code_simp

lemma shouted_person_bottom:
  "truediv 100 1000 = Inr (3602879701896397 / 36028797018963968)"
  by code_simp

lemma shouted_person_multiplier: "dict_get class_multipliers (lower ''PERSON'') 1 = fl64 1.2"
  by code_simp

lemma shouted_person_final:
  "final_score (5764607523034235 / 576460752303423488) (3602879701896397 / 36028797018963968) (fl64 1.2) = 12"
  by code_simp

lemma shouted_person_record:
  "hazard_record 12 (fl64 1.2) =
     [(''score'', Num 12),
          (''level'', Str ''LOW''),
          (''estimated_distance'', Str ''8m+''),
          (''color_code'', Str ''#00FF00''),
          (''recommended_action'', Str ''SAFE TO PROCEED''),
          (''priority'', Num (fl64 1.2))]"
  by code_simp

lemma shouted_person_result:
  "calculate_hazard_score (0, 0, 100, 100) [1000, 1000, 3] ''PERSON'' =
     Inr [(''score'', Num 12),
          (''level'', Str ''LOW''),
          (''estimated_distance'', Str ''8m+''),
          (''color_code'', Str ''#00FF00''),
          (''recommended_action'', Str ''SAFE TO PROCEED''),
          (''priority'', Num (fl64 1.2))]"
  by (simp only: calculate_hazard_score_steps shouted_person_area shouted_person_ratio shouted_person_bottom shouted_person_multiplier
        shouted_person_final shouted_person_record sum.case)


text \<open>At \<open>(0, 0, 100, 100)\<close> and \<^verbatim>\<open>Drone\<close>: a class that the table does not have, with a capital letter.\<close>

lemma mixed_drone_area: "bbox_area (0, 0, 100, 100) = 10000"
  by code_simp

lemma mixed_drone_ratio:
  "truediv 10000 (1000 * 1000) = Inr (5764607523034235 / 576460752303423488)"
  by code_simp

lemma mixed_drone_bottom:
  "truediv 100 1000 = Inr (3602879701896397 / 36028797018963968)"
  by code_simp

lemma mixed_drone_multiplier: "dict_get class_multipliers (lower ''Drone'') 1 = 1"
  by code_simp

lemma mixed_drone_final:
  "final_score (5764607523034235 / 576460752303423488) (3602879701896397 / 36028797018963968) 1 = 10"
  by code_simp

lemma mixed_drone_record:
  "hazard_record 10 1 =
     [(''score'', Num 10),
          (''level'', Str ''LOW''),
          (''estimated_distance'', Str ''8m+''),
          (''color_code'', Str ''#00FF00''),
          (''recommended_action'', Str ''SAFE TO PROCEED''),
          (''priority'', Num 1)]"
  by code_simp

lemma mixed_drone_result:
  "calculate_hazard_score (0, 0, 100, 100) [1000, 1000, 3] ''Drone'' =
     Inr [(''score'', Num 10),
          (''level'', Str ''LOW''),
          (''estimated_distance'', Str ''8m+''),
          (''color_code'', Str ''#00FF00''),
          (''recommended_action'', Str ''SAFE TO PROCEED''),
          (''priority'', Num 1)]"
  by (simp only: calculate_hazard_score_steps mixed_drone_area mixed_drone_ratio mixed_drone_bottom mixed_drone_multiplier
        mixed_drone_final mixed_drone_record sum.case)


text \<open>At \<open>(0, 900, 1000, 1000)\<close> and \<^verbatim>\<open>car\<close>: a car along the whole lower edge of the image.\<close>

lemma bottom_car_area: "bbox_area (0, 900, 1000, 1000) = 100000"
  by code_simp

lemma bottom_car_ratio:
  "truediv 100000 (1000 * 1000) = Inr (3602879701896397 / 36028797018963968)"
  by code_simp

lemma bottom_car_bottom:
  "truediv 1000 1000 = Inr 1"
  by code_simp

lemma bottom_car_multiplier: "dict_get class_multipliers (lower ''car'') 1 = fl64 0.9"
  by code_simp

lemma bottom_car_final:
  "final_score (3602879701896397 / 36028797018963968) 1 (fl64 0.9) = 90"
  by code_simp

lemma bottom_car_record:
  "hazard_record 90 (fl64 0.9) =
     [(''score'', Num 90),
          (''level'', Str ''CRITICAL''),
          (''estimated_distance'', Str ''0-2m''),
          (''color_code'', Str ''#FF0000''),
          (''recommended_action'', Str ''STOP IMMEDIATELY''),
          (''priority'', Num (fl64 0.9))]"
  by code_simp

lemma bottom_car_result:
  "calculate_hazard_score (0, 900, 1000, 1000) [1000, 1000, 3] ''car'' =
     Inr [(''score'', Num 90),
          (''level'', Str ''CRITICAL''),
          (''estimated_distance'', Str ''0-2m''),
          (''color_code'', Str ''#FF0000''),
          (''recommended_action'', Str ''STOP IMMEDIATELY''),
          (''priority'', Num (fl64 0.9))]"
  by (simp only: calculate_hazard_score_steps bottom_car_area bottom_car_ratio bottom_car_bottom bottom_car_multiplier
        bottom_car_final bottom_car_record sum.case)





section \<open>C1: the overall risk of a zone\<close>

text \<open>
  Claim C1, as the source has it. \<open>calculate_zone_risk\<close> reads the score of a record
  under the key \<^verbatim>\<open>hazard_score\<close>. For every list of detections that carry a number under
  that key, with \<open>scores\<close> the list of those numbers, the function returns a result whose
  \<^verbatim>\<open>overall_risk\<close> is SAFE exactly when the list is empty, with \<^verbatim>\<open>max_hazard_score\<close> 0 in
  that case. For a list that is not empty the three counts are the numbers of scores from
  80, from 60 below 80 and from 40 below 60, and \<^verbatim>\<open>overall_risk\<close> is CRITICAL when some
  score is in the first bucket, else HIGH when some score is in the second, else MEDIUM
  when some score is in the third, else LOW; it is LOW when every score is below 40.
\<close>

theorem zone_overall_risk:
  assumes "map hazard_score detections = map Inr scores"
  shows "\<exists>r. calculate_zone_risk detections image_shape = Inr r
           \<and> (map_of r ''overall_risk'' = Some (Str ''SAFE'') \<longleftrightarrow> detections = [])
           \<and> (detections = [] \<longrightarrow> map_of r ''max_hazard_score'' = Some (Num 0))
           \<and> (detections \<noteq> [] \<longrightarrow>
                 map_of r ''critical_objects''
                   = Some (Num (of_nat (length (filter (\<lambda>x. 80 \<le> x) scores))))
               \<and> map_of r ''high_risk_objects''
                   = Some (Num (of_nat (length (filter (\<lambda>x. 60 \<le> x \<and> x < 80) scores))))
               \<and> map_of r ''medium_risk_objects''
                   = Some (Num (of_nat (length (filter (\<lambda>x. 40 \<le> x \<and> x < 60) scores))))
               \<and> map_of r ''overall_risk'' =
                   Some (Str (if \<exists>x\<in>set scores. 80 \<le> x then ''CRITICAL''
                              else if \<exists>x\<in>set scores. 60 \<le> x \<and> x < 80 then ''HIGH''
                              else if \<exists>x\<in>set scores. 40 \<le> x \<and> x < 60 then ''MEDIUM''
                              else ''LOW'')))
           \<and> (detections \<noteq> [] \<and> (\<forall>x\<in>set scores. x < 40) \<longrightarrow>
                 map_of r ''overall_risk'' = Some (Str ''LOW''))"
proof (cases "detections = []")
  case True
  then show ?thesis by (simp add: calculate_zone_risk_def)
next
  case False
  define r where "r = zone_record (length (filter (\<lambda>x. 80 \<le> x) scores))
            (length (filter (\<lambda>x. 60 \<le> x \<and> x < 80) scores))
            (length (filter (\<lambda>x. 40 \<le> x \<and> x < 60) scores))
            (Max (set scores)) (length scores)"
  have res: "calculate_zone_risk detections image_shape = Inr r"
    unfolding r_def using assms False by (rule zone_risk_scores)
  have risk: "map_of r ''overall_risk'' =
      Some (Str (if \<exists>x\<in>set scores. 80 \<le> x then ''CRITICAL''
                 else if \<exists>x\<in>set scores. 60 \<le> x \<and> x < 80 then ''HIGH''
                 else if \<exists>x\<in>set scores. 40 \<le> x \<and> x < 60 then ''MEDIUM''
                 else ''LOW''))"
    unfolding r_def zone_record_overall_risk filter_nonempty_iff ..
  have not_safe: "map_of r ''overall_risk'' \<noteq> Some (Str ''SAFE'')"
    unfolding risk by simp
  have low: "(\<forall>x\<in>set scores. x < 40) \<longrightarrow> map_of r ''overall_risk'' = Some (Str ''LOW'')"
  proof
    assume a: "\<forall>x\<in>set scores. x < 40"
    have "\<not> (\<exists>x\<in>set scores. 80 \<le> x)" using a by fastforce
    moreover have "\<not> (\<exists>x\<in>set scores. 60 \<le> x \<and> x < 80)" using a by fastforce
    moreover have "\<not> (\<exists>x\<in>set scores. 40 \<le> x \<and> x < 60)" using a by fastforce
    ultimately show "map_of r ''overall_risk'' = Some (Str ''LOW'')"
      unfolding risk by (simp only: if_False)
  qed
  show ?thesis
    using False res risk not_safe low by (simp add: r_def zone_record_counts)
qed

text \<open>
  The scores 85, 62 and 30 give CRITICAL with one critical and one high-risk object; the
  scores 30 and 12 give LOW; no detection gives SAFE.
\<close>

theorem zone_overall_risk_witness:
  "map hazard_score [[(''hazard_score'', Num 85)], [(''hazard_score'', Num 62)],
                     [(''hazard_score'', Num 30)]] = map Inr [85, 62, 30]
   \<and> (\<exists>r. calculate_zone_risk [[(''hazard_score'', Num 85)], [(''hazard_score'', Num 62)],
                                 [(''hazard_score'', Num 30)]] [1000, 1000, 3] = Inr r
          \<and> map_of r ''overall_risk'' = Some (Str ''CRITICAL'')
          \<and> map_of r ''critical_objects'' = Some (Num 1)
          \<and> map_of r ''high_risk_objects'' = Some (Num 1)
          \<and> map_of r ''medium_risk_objects'' = Some (Num 0))
   \<and> map hazard_score [[(''hazard_score'', Num 30)], [(''hazard_score'', Num 12)]]
         = map Inr [30, 12]
   \<and> (\<exists>r. calculate_zone_risk [[(''hazard_score'', Num 30)], [(''hazard_score'', Num 12)]]
               [1000, 1000, 3] = Inr r
          \<and> map_of r ''overall_risk'' = Some (Str ''LOW''))
   \<and> map hazard_score [] = map Inr []
   \<and> (\<exists>r. calculate_zone_risk [] [1000, 1000, 3] = Inr r
          \<and> map_of r ''overall_risk'' = Some (Str ''SAFE'')
          \<and> map_of r ''max_hazard_score'' = Some (Num 0))"
proof -
  have a: "map hazard_score [[(''hazard_score'', Num 85)], [(''hazard_score'', Num 62)],
                     [(''hazard_score'', Num 30)]] = map Inr [85, 62, 30]"
    by (simp add: hazard_score_def getitem_def)
  have b: "map hazard_score [[(''hazard_score'', Num 30)], [(''hazard_score'', Num 12)]]
         = map Inr [30, 12]"
    by (simp add: hazard_score_def getitem_def)
  have c: "map hazard_score [] = map Inr []"
    by simp
  show ?thesis
    using a b c
      zone_overall_risk [OF a, of "[1000, 1000, 3]"]
      zone_overall_risk [OF b, of "[1000, 1000, 3]"]
      zone_overall_risk [OF c, of "[1000, 1000, 3]"]
    by simp blast
qed

text \<open>
  The claim as it is written passes hazard records, which carry their score under
  \<^verbatim>\<open>score\<close>. On the record of a car along the lower edge of the image, whose score 90 is
  in the first bucket, the function returns no \<^verbatim>\<open>overall_risk\<close>: it raises \<^verbatim>\<open>KeyError\<close>.
\<close>

theorem zone_overall_risk_counterexample:
  "calculate_hazard_score (0, 900, 1000, 1000) [1000, 1000, 3] ''car'' =
     Inr [(''score'', Num 90),
          (''level'', Str ''CRITICAL''),
          (''estimated_distance'', Str ''0-2m''),
          (''color_code'', Str ''#FF0000''),
          (''recommended_action'', Str ''STOP IMMEDIATELY''),
          (''priority'', Num (fl64 0.9))]
   \<and> calculate_zone_risk
         [[(''score'', Num 90),
           (''level'', Str ''CRITICAL''),
           (''estimated_distance'', Str ''0-2m''),
           (''color_code'', Str ''#FF0000''),
           (''recommended_action'', Str ''STOP IMMEDIATELY''),
           (''priority'', Num (fl64 0.9))]] [1000, 1000, 3]
       = Inl (KeyError ''hazard_score'')"
proof -
  have "calculate_zone_risk
         [[(''score'', Num 90),
           (''level'', Str ''CRITICAL''),
           (''estimated_distance'', Str ''0-2m''),
           (''color_code'', Str ''#FF0000''),
           (''recommended_action'', Str ''STOP IMMEDIATELY''),
           (''priority'', Num (fl64 0.9))]] [1000, 1000, 3]
       = Inl (KeyError ''hazard_score'')"
    by (simp add: calculate_zone_risk_def hazard_score_def getitem_def)
  with bottom_car_result show ?thesis by (rule conjI)
qed


section \<open>C2: the range of the score\<close>

text \<open>
  Claim C2. For a box with \<open>0 \<le> x1 \<le> x2 \<le> image_width\<close> and
  \<open>0 \<le> y1 \<le> y2 \<le> image_height\<close>, an image of positive area and any class name,
  \<open>calculate_hazard_score\<close> returns a record whose score lies between 0 and 100. The
  bounds hold for the doubles that Python computes: every rounding is monotone, so no
  intermediate value is negative, and \<^verbatim>\<open>min\<close> and the final rounding to two decimals keep
  the score at or below 100.
\<close>

theorem score_in_range:
  assumes "0 \<le> x1" and "x1 \<le> x2" and "x2 \<le> of_int image_width"
    and "0 \<le> y1" and "y1 \<le> y2" and "y2 \<le> of_int image_height"
    and "0 < image_height * image_width"
  shows "\<exists>r s. calculate_hazard_score (x1, y1, x2, y2) (image_height # image_width # rest) class_name
                 = Inr r
             \<and> map_of r ''score'' = Some (Num s) \<and> 0 \<le> s \<and> s \<le> 100"
proof -
  have "0 \<le> y2" using assms(4,5) by simp
  then have "(0::rat) \<le> of_int image_height" using assms(6) by (rule order_trans)
  then have h0: "0 \<le> image_height" by simp
  have "image_height \<noteq> 0" using assms(7) by auto
  with h0 have hpos: "0 < image_height" by simp
  obtain size_ratio where sr: "truediv (bbox_area (x1, y1, x2, y2)) (image_height * image_width) = Inr size_ratio"
    and sr0: "0 \<le> size_ratio"
    using truediv_nonneg [OF bbox_area_nonneg [OF assms(2) assms(5)] assms(7)] by blast
  obtain bottom_position where bp: "truediv y2 image_height = Inr bottom_position"
    and bp0: "0 \<le> bottom_position"
    using truediv_nonneg [OF \<open>0 \<le> y2\<close> hpos] by blast
  define m where "m = dict_get class_multipliers (lower class_name) 1"
  define f where "f = final_score size_ratio bottom_position m"
  have m0: "0 \<le> m" unfolding m_def by (rule multiplier_nonneg)
  have f0: "0 \<le> f" and f100: "f \<le> 100"
    unfolding f_def using final_score_bounds [OF sr0 bp0 m0] by simp_all
  have res: "calculate_hazard_score (x1, y1, x2, y2) (image_height # image_width # rest) class_name
      = Inr (hazard_record f m)"
    by (simp only: calculate_hazard_score_steps sr bp sum.case f_def m_def)
  moreover have "map_of (hazard_record f m) ''score'' = Some (Num (py_round2 f))"
    by (rule hazard_record_score)
  moreover have "0 \<le> py_round2 f" "py_round2 f \<le> 100"
    using py_round2_bounds [OF f0 f100] by simp_all
  ultimately show ?thesis by blast
qed

theorem score_in_range_witness:
  "(0::rat) \<le> 0 \<and> (0::rat) \<le> 100 \<and> (100::rat) \<le> of_int 1000
   \<and> (0::rat) \<le> 0 \<and> (0::rat) \<le> 100 \<and> (100::rat) \<le> of_int 1000
   \<and> (0::int) < 1000 * 1000
   \<and> (\<exists>r s. calculate_hazard_score (0, 0, 100, 100) [1000, 1000, 3] ''person'' = Inr r
            \<and> map_of r ''score'' = Some (Num s) \<and> 0 \<le> s \<and> s \<le> 100)"
  using score_in_range [of 0 100 1000 0 100 1000 "[3]" "''person''"] by simp


section \<open>C3: the level and the returned score\<close>

text \<open>
  Claim C3. The level is chosen from \<^verbatim>\<open>final_score\<close> before it is rounded, and the record
  carries the rounded score. For the box \<open>(0, 721, 256, 1000)\<close> in a 1000 by 1000 image
  and the class \<^verbatim>\<open>bicycle\<close>, \<^verbatim>\<open>final_score\<close> is the double 79.99680000000001, below the
  threshold 80, so the level is HIGH and the distance 2-5m, while the returned score is
  \<^verbatim>\<open>round(final_score, 2)\<close>, which is 80.0: a record with score 80 whose level is not
  CRITICAL and whose distance is not 0-2m.
\<close>

theorem level_from_unrounded_score:
  "calculate_hazard_score (0, 721, 256, 1000) [1000, 1000, 3] ''bicycle'' =
     Inr [(''score'', Num 80),
          (''level'', Str ''HIGH''),
          (''estimated_distance'', Str ''2-5m''),
          (''color_code'', Str ''#FF6B00''),
          (''recommended_action'', Str ''PROCEED WITH CAUTION''),
          (''priority'', Num 1)]"
  by (rule near80_result)


section \<open>C4: the class multipliers\<close>

text \<open>
  Claim C4. For every class name, the multiplier that \<open>calculate_hazard_score\<close> looks up
  under the lowercased name is the one of the table of the specification: 1.2 for
  person, human, worker and pedestrian, 1.3 for child, 1.1 for animal, dog and cat, 0.9
  for vehicle, car and truck, 1.0 for bicycle and motorcycle, and 1.0 for every other
  name. Lowercasing an ASCII name replaces each capital letter by its small letter. In an
  image of nonzero area the returned record is the one computed with that multiplier:
  the multiplier is the last factor of \<^verbatim>\<open>final_score\<close>, from which the score is rounded,
  and it is the \<^verbatim>\<open>priority\<close> of the record. A class whose lowercased name is not in the
  table gets the same result as \<^verbatim>\<open>bicycle\<close> and as \<^verbatim>\<open>motorcycle\<close> on the same box and
  image shape.
\<close>

theorem class_multiplier_table:
  "dict_get class_multipliers (lower class_name) 1 = spec_multiplier (lower class_name)
   \<and> (ascii class_name \<longrightarrow> lower class_name = map spec_lower_char class_name)
   \<and> (image_height * image_width \<noteq> 0 \<longrightarrow>
         (\<exists>r. calculate_hazard_score (x1, y1, x2, y2) (image_height # image_width # rest)
                class_name = Inr r
            \<and> map_of r ''score'' =
                Some (Num (py_round2
                  (min (fl64
                     (min (fl64
                        (fl64 (fl64 (bbox_area (x1, y1, x2, y2)
                                     / fl64 (of_int (image_height * image_width))) * 700)
                         + fl64 (fl64 (y2 / fl64 (of_int image_height)) * 30))) 100
                      * spec_multiplier (lower class_name))) 100)))
            \<and> map_of r ''priority'' = Some (Num (spec_multiplier (lower class_name)))))
   \<and> (\<forall>r. calculate_hazard_score bbox image_shape class_name = Inr r \<longrightarrow>
            map_of r ''priority'' = Some (Num (spec_multiplier (lower class_name))))
   \<and> (lower class_name \<notin> fst ` set class_multipliers \<longrightarrow>
         spec_multiplier (lower class_name) = 1
       \<and> calculate_hazard_score bbox image_shape class_name
           = calculate_hazard_score bbox image_shape ''bicycle''
       \<and> calculate_hazard_score bbox image_shape class_name
           = calculate_hazard_score bbox image_shape ''motorcycle'')"
proof (intro conjI allI impI)
  show "dict_get class_multipliers (lower class_name) 1 = spec_multiplier (lower class_name)"
    by (rule multiplier_spec)
next
  assume "ascii class_name"
  then show "lower class_name = map spec_lower_char class_name" by (rule lower_ascii)
next
  assume nz: "image_height * image_width \<noteq> 0"
  then have h: "image_height \<noteq> 0" by auto
  define m where "m = spec_multiplier (lower class_name)"
  define sr where "sr = fl64 (bbox_area (x1, y1, x2, y2) / fl64 (of_int (image_height * image_width)))"
  define bp where "bp = fl64 (y2 / fl64 (of_int image_height))"
  have res: "calculate_hazard_score (x1, y1, x2, y2) (image_height # image_width # rest) class_name
      = Inr (hazard_record (final_score sr bp m) m)"
    by (simp only: calculate_hazard_score_steps truediv_ok [OF nz] truediv_ok [OF h] sum.case
        multiplier_spec sr_def bp_def m_def)
  have "final_score sr bp m = min (fl64 (min (fl64 (fl64 (sr * 700) + fl64 (bp * 30))) 100 * m)) 100"
    by (simp add: final_score_def Let_def)
  then have "map_of (hazard_record (final_score sr bp m) m) ''score'' =
      Some (Num (py_round2 (min (fl64 (min (fl64 (fl64 (sr * 700) + fl64 (bp * 30))) 100 * m)) 100)))"
    by (simp only: hazard_record_score)
  moreover have "map_of (hazard_record (final_score sr bp m) m) ''priority'' = Some (Num m)"
    by (rule hazard_record_priority)
  ultimately show "\<exists>r. calculate_hazard_score (x1, y1, x2, y2) (image_height # image_width # rest)
                class_name = Inr r
            \<and> map_of r ''score'' =
                Some (Num (py_round2
                  (min (fl64
                     (min (fl64
                        (fl64 (fl64 (bbox_area (x1, y1, x2, y2)
                                     / fl64 (of_int (image_height * image_width))) * 700)
                         + fl64 (fl64 (y2 / fl64 (of_int image_height)) * 30))) 100
                      * spec_multiplier (lower class_name))) 100)))
            \<and> map_of r ''priority'' = Some (Num (spec_multiplier (lower class_name)))"
    using res unfolding sr_def bp_def m_def by blast
next
  fix r
  assume "calculate_hazard_score bbox image_shape class_name = Inr r"
  then obtain f where r: "r = hazard_record f (dict_get class_multipliers (lower class_name) 1)"
    using calculate_hazard_score_record by blast
  show "map_of r ''priority'' = Some (Num (spec_multiplier (lower class_name)))"
    unfolding r by (simp only: hazard_record_priority multiplier_spec)
next
  assume u: "lower class_name \<notin> fst ` set class_multipliers"
  have one: "dict_get class_multipliers (lower class_name) 1 = 1"
    using u by (rule unknown_class_multiplier)
  then show "spec_multiplier (lower class_name) = 1" by (simp only: multiplier_spec)
  show "calculate_hazard_score bbox image_shape class_name
          = calculate_hazard_score bbox image_shape ''bicycle''"
    by (rule calculate_hazard_score_cong) (simp only: one bicycle_multiplier)
  show "calculate_hazard_score bbox image_shape class_name
          = calculate_hazard_score bbox image_shape ''motorcycle''"
    by (rule calculate_hazard_score_cong) (simp only: one motorcycle_multiplier)
qed

text \<open>
  The class \<^verbatim>\<open>PERSON\<close> gets the multiplier of \<^verbatim>\<open>person\<close>; the class \<^verbatim>\<open>Drone\<close> is not in
  the table.
\<close>

lemma shouted_person_ascii: "ascii ''PERSON''"
  by code_simp

lemma shouted_person_lower: "lower ''PERSON'' = ''person''"
  by code_simp

lemma shouted_person_spec: "spec_multiplier ''person'' = fl64 1.2"
  by (simp add: spec_multiplier_def)

lemma mixed_drone_lower: "lower ''Drone'' = ''drone''"
  by code_simp

lemma drone_unknown: "''drone'' \<notin> fst ` set class_multipliers"
  by code_simp

theorem class_multiplier_table_witness:
  "ascii ''PERSON''
   \<and> lower ''PERSON'' = ''person''
   \<and> (1000::int) * 1000 \<noteq> 0
   \<and> calculate_hazard_score (0, 0, 100, 100) [1000, 1000, 3] ''PERSON'' =
       Inr [(''score'', Num 12),
            (''level'', Str ''LOW''),
            (''estimated_distance'', Str ''8m+''),
            (''color_code'', Str ''#00FF00''),
            (''recommended_action'', Str ''SAFE TO PROCEED''),
            (''priority'', Num (fl64 1.2))]
   \<and> dict_get class_multipliers (lower ''PERSON'') 1 = fl64 1.2
   \<and> (\<exists>r. calculate_hazard_score (0, 0, 100, 100) [1000, 1000, 3] ''PERSON'' = Inr r
          \<and> map_of r ''priority'' = Some (Num (spec_multiplier (lower ''PERSON''))))
   \<and> map_of [(''score'', Num 12),
               (''level'', Str ''LOW''),
               (''estimated_distance'', Str ''8m+''),
               (''color_code'', Str ''#00FF00''),
               (''recommended_action'', Str ''SAFE TO PROCEED''),
               (''priority'', Num (fl64 1.2))] ''priority''
       = Some (Num (spec_multiplier (lower ''PERSON'')))
   \<and> lower ''Drone'' \<notin> fst ` set class_multipliers
   \<and> spec_multiplier (lower ''Drone'') = 1
   \<and> calculate_hazard_score (0, 0, 100, 100) [1000, 1000, 3] ''Drone''
       = calculate_hazard_score (0, 0, 100, 100) [1000, 1000, 3] ''bicycle''
   \<and> calculate_hazard_score (0, 0, 100, 100) [1000, 1000, 3] ''Drone''
       = calculate_hazard_score (0, 0, 100, 100) [1000, 1000, 3] ''motorcycle''"
proof -
  note p = class_multiplier_table [where class_name = "''PERSON''"
      and bbox = "(0, 0, 100, 100)" and image_shape = "[1000, 1000, 3]"]
  note d = class_multiplier_table [where class_name = "''Drone''"
      and bbox = "(0, 0, 100, 100)" and image_shape = "[1000, 1000, 3]"]
  have u: "lower ''Drone'' \<notin> fst ` set class_multipliers"
    unfolding mixed_drone_lower by (rule drone_unknown)
  have "dict_get class_multipliers (lower ''PERSON'') 1 = fl64 1.2"
    using p by (simp only: shouted_person_lower shouted_person_spec)
  moreover have "map_of [(''score'', Num 12),
               (''level'', Str ''LOW''),
               (''estimated_distance'', Str ''8m+''),
               (''color_code'', Str ''#00FF00''),
               (''recommended_action'', Str ''SAFE TO PROCEED''),
               (''priority'', Num (fl64 1.2))] ''priority''
       = Some (Num (spec_multiplier (lower ''PERSON'')))"
    using p shouted_person_result by blast
  moreover have "spec_multiplier (lower ''Drone'') = 1"
    and "calculate_hazard_score (0, 0, 100, 100) [1000, 1000, 3] ''Drone''
       = calculate_hazard_score (0, 0, 100, 100) [1000, 1000, 3] ''bicycle''"
    and "calculate_hazard_score (0, 0, 100, 100) [1000, 1000, 3] ''Drone''
       = calculate_hazard_score (0, 0, 100, 100) [1000, 1000, 3] ''motorcycle''"
    using d u by blast+
  moreover have nz: "(1000::int) * 1000 \<noteq> 0" by simp
  moreover have "\<exists>r. calculate_hazard_score (0, 0, 100, 100) [1000, 1000, 3] ''PERSON'' = Inr r
          \<and> map_of r ''priority'' = Some (Num (spec_multiplier (lower ''PERSON'')))"
    using class_multiplier_table [where class_name = "''PERSON''" and image_height = 1000
        and image_width = 1000 and ?x1.0 = 0 and ?y1.0 = 0 and ?x2.0 = 100 and ?y2.0 = 100
        and rest = "[3]"] nz
    by blast
  ultimately show ?thesis
    using shouted_person_ascii shouted_person_lower shouted_person_result u by (intro conjI)
qed


section \<open>C5: what the zone risk reads\<close>

text \<open>
  Claim C5, as the source has it. \<open>calculate_zone_risk\<close> reads the entry
  \<^verbatim>\<open>hazard_score\<close> of each detection and nothing else: two lists of detections with the
  same numbers under \<^verbatim>\<open>hazard_score\<close>, in the same order, give the same result whatever
  their other entries and whatever the image shape, and the call succeeds. A hazard
  record as \<open>calculate_hazard_score\<close> returns it has its score under \<^verbatim>\<open>score\<close> and no entry
  \<^verbatim>\<open>hazard_score\<close>, so a list that starts with such a record makes the function raise
  \<^verbatim>\<open>KeyError\<close>.
\<close>

theorem zone_risk_reads_hazard_score:
  "(map hazard_score detections = map Inr scores \<and> map hazard_score detections' = map Inr scores
      \<longrightarrow> calculate_zone_risk detections image_shape = calculate_zone_risk detections' image_shape'
        \<and> (\<exists>r. calculate_zone_risk detections image_shape = Inr r))
   \<and> (calculate_hazard_score bbox shape class_name = Inr hazard
      \<longrightarrow> calculate_zone_risk (hazard # rest) image_shape = Inl (KeyError ''hazard_score''))"
proof (intro conjI impI)
  assume a: "map hazard_score detections = map Inr scores \<and> map hazard_score detections' = map Inr scores"
  then show "calculate_zone_risk detections image_shape = calculate_zone_risk detections' image_shape'"
    by (intro zone_risk_mset [of detections' scores detections scores]) simp_all
  show "\<exists>r. calculate_zone_risk detections image_shape = Inr r"
    using a zone_risk_total by blast
next
  assume "calculate_hazard_score bbox shape class_name = Inr hazard"
  then obtain f where "hazard = hazard_record f (dict_get class_multipliers (lower class_name) 1)"
    using calculate_hazard_score_record by blast
  then have "hazard_score hazard = Inl (KeyError ''hazard_score'')"
    by (simp only: hazard_record_no_hazard_score)
  then show "calculate_zone_risk (hazard # rest) image_shape = Inl (KeyError ''hazard_score'')"
    by (rule zone_risk_key_error)
qed

theorem zone_risk_reads_hazard_score_witness:
  "map hazard_score [[(''hazard_score'', Num 85), (''hazard_level'', Str ''CRITICAL'')]]
     = map Inr [85]
   \<and> map hazard_score [[(''class'', Str ''person''), (''hazard_level'', Str ''LOW''),
                       (''hazard_score'', Num 85)]] = map Inr [85]
   \<and> calculate_zone_risk [[(''hazard_score'', Num 85), (''hazard_level'', Str ''CRITICAL'')]]
         [1000, 1000, 3]
       = calculate_zone_risk [[(''class'', Str ''person''), (''hazard_level'', Str ''LOW''),
                                (''hazard_score'', Num 85)]] [480, 640, 3]
   \<and> (\<exists>r. calculate_zone_risk [[(''hazard_score'', Num 85), (''hazard_level'', Str ''CRITICAL'')]]
               [1000, 1000, 3] = Inr r)
   \<and> calculate_hazard_score (0, 0, 100, 100) [1000, 1000, 3] ''drone'' =
       Inr [(''score'', Num 10),
            (''level'', Str ''LOW''),
            (''estimated_distance'', Str ''8m+''),
            (''color_code'', Str ''#00FF00''),
            (''recommended_action'', Str ''SAFE TO PROCEED''),
            (''priority'', Num 1)]
   \<and> calculate_zone_risk
         [[(''score'', Num 10),
           (''level'', Str ''LOW''),
           (''estimated_distance'', Str ''8m+''),
           (''color_code'', Str ''#00FF00''),
           (''recommended_action'', Str ''SAFE TO PROCEED''),
           (''priority'', Num 1)]] [1000, 1000, 3]
       = Inl (KeyError ''hazard_score'')"
proof -
  have a: "map hazard_score [[(''hazard_score'', Num 85), (''hazard_level'', Str ''CRITICAL'')]]
     = map Inr [85]"
    by (simp add: hazard_score_def getitem_def)
  have b: "map hazard_score [[(''class'', Str ''person''), (''hazard_level'', Str ''LOW''),
                       (''hazard_score'', Num 85)]] = map Inr [85]"
    by (simp add: hazard_score_def getitem_def)
  note t = zone_risk_reads_hazard_score [where
      detections = "[[(''hazard_score'', Num 85), (''hazard_level'', Str ''CRITICAL'')]]"
      and scores = "[85]"
      and detections' = "[[(''class'', Str ''person''), (''hazard_level'', Str ''LOW''),
                           (''hazard_score'', Num 85)]]"
      and image_shape = "[1000, 1000, 3]" and image_shape' = "[480, 640, 3]"
      and bbox = "(0, 0, 100, 100)" and shape = "[1000, 1000, 3]" and class_name = "''drone''"
      and hazard = "[(''score'', Num 10),
            (''level'', Str ''LOW''),
            (''estimated_distance'', Str ''8m+''),
            (''color_code'', Str ''#00FF00''),
            (''recommended_action'', Str ''SAFE TO PROCEED''),
            (''priority'', Num 1)]"
      and rest = "[]"]
  show ?thesis
    using a b small_drone_result t by blast
qed

text \<open>
  The claim as it is written passes the records of \<open>calculate_hazard_score\<close> themselves:
  on the record of a person in the upper left corner the function raises.
\<close>

theorem zone_risk_on_hazard_records_counterexample:
  "calculate_hazard_score (0, 0, 100, 100) [1000, 1000, 3] ''person'' =
     Inr [(''score'', Num 12),
          (''level'', Str ''LOW''),
          (''estimated_distance'', Str ''8m+''),
          (''color_code'', Str ''#00FF00''),
          (''recommended_action'', Str ''SAFE TO PROCEED''),
          (''priority'', Num (fl64 1.2))]
   \<and> calculate_zone_risk
         [[(''score'', Num 12),
           (''level'', Str ''LOW''),
           (''estimated_distance'', Str ''8m+''),
           (''color_code'', Str ''#00FF00''),
           (''recommended_action'', Str ''SAFE TO PROCEED''),
           (''priority'', Num (fl64 1.2))]] [1000, 1000, 3]
       = Inl (KeyError ''hazard_score'')"
proof -
  have "calculate_zone_risk
         [[(''score'', Num 12),
           (''level'', Str ''LOW''),
           (''estimated_distance'', Str ''8m+''),
           (''color_code'', Str ''#00FF00''),
           (''recommended_action'', Str ''SAFE TO PROCEED''),
           (''priority'', Num (fl64 1.2))]] [1000, 1000, 3]
       = Inl (KeyError ''hazard_score'')"
    by (simp add: calculate_zone_risk_def hazard_score_def getitem_def)
  with small_person_result show ?thesis by (rule conjI)
qed


section \<open>C6: a zero image area\<close>

text \<open>
  Claim C6. Whatever the bounding box and the class name, an image shape whose height
  times width is zero makes \<open>calculate_hazard_score\<close> raise \<^verbatim>\<open>ZeroDivisionError\<close>, at
  the division \<^verbatim>\<open>bbox_area / image_area\<close>, and no hazard record is returned.
\<close>

theorem zero_image_area_raises:
  "image_height * image_width = 0 \<Longrightarrow>
     calculate_hazard_score (x1, y1, x2, y2) (image_height # image_width # rest) class_name
       = Inl ZeroDivisionError"
  by (simp add: calculate_hazard_score_def truediv_def)

theorem zero_image_area_raises_witness:
  "(0::int) * 1000 = 0 \<and>
   calculate_hazard_score (0, 0, 100, 100) [0, 1000, 3] ''person'' = Inl ZeroDivisionError"
  using zero_image_area_raises [of 0 1000 0 0 100 100 "[3]" "''person''"] by simp


section \<open>C7: a box with exchanged corners\<close>





section \<open>C8: a box of zero area\<close>





section \<open>C9: the alert texts\<close>

lemma alerts_lookup:
  "map_of alerts s =
     (if s = ''CRITICAL'' then
        Some (warning_sign @ '' CRITICAL ALERT: Object detected in immediate vicinity! STOP DUMPING!'')
      else if s = ''HIGH'' then
        Some (warning_sign @ '' HIGH RISK: Object approaching danger zone. Proceed with extreme caution.'')
      else if s = ''MEDIUM'' then
        Some (high_voltage_sign @ '' CAUTION: Object detected nearby. Monitor before dumping.'')
      else if s = ''LOW'' then Some (check_mark @ '' LOW RISK: Area monitored. Safe to proceed.'')
      else if s = ''SAFE'' then Some (check_mark @ '' SAFE: No objects detected in monitoring zones.'')
      else None)"
  unfolding alerts_def by simp

text \<open>
  Claim C9, as the source has it. \<open>generate_alert_message\<close> reads only the entry
  \<^verbatim>\<open>overall_risk\<close> and is a lookup in a table of five texts, with \<^verbatim>\<open>Status unknown\<close> for
  every other value. Each text of the table starts with a symbol and a space, which the
  claim leaves out: the warning sign for CRITICAL and HIGH, the high voltage sign for
  MEDIUM, the check mark for LOW and SAFE.
\<close>

theorem alert_text:
  assumes "getitem zone_risk ''overall_risk'' = Inr risk_level"
  shows "generate_alert_message zone_risk =
     Inr (if risk_level = Str ''CRITICAL'' then
            warning_sign @ '' CRITICAL ALERT: Object detected in immediate vicinity! STOP DUMPING!''
          else if risk_level = Str ''HIGH'' then
            warning_sign @ '' HIGH RISK: Object approaching danger zone. Proceed with extreme caution.''
          else if risk_level = Str ''MEDIUM'' then
            high_voltage_sign @ '' CAUTION: Object detected nearby. Monitor before dumping.''
          else if risk_level = Str ''LOW'' then
            check_mark @ '' LOW RISK: Area monitored. Safe to proceed.''
          else if risk_level = Str ''SAFE'' then
            check_mark @ '' SAFE: No objects detected in monitoring zones.''
          else ''Status unknown'')"
proof (cases risk_level)
  case (Num n)
  then show ?thesis using assms by (simp add: generate_alert_message_def)
next
  case (Str s)
  have "generate_alert_message zone_risk = Inr (dict_get alerts s ''Status unknown'')"
    using assms Str by (simp add: generate_alert_message_def)
  moreover have "dict_get alerts s ''Status unknown'' =
      (if s = ''CRITICAL'' then
            warning_sign @ '' CRITICAL ALERT: Object detected in immediate vicinity! STOP DUMPING!''
          else if s = ''HIGH'' then
            warning_sign @ '' HIGH RISK: Object approaching danger zone. Proceed with extreme caution.''
          else if s = ''MEDIUM'' then
            high_voltage_sign @ '' CAUTION: Object detected nearby. Monitor before dumping.''
          else if s = ''LOW'' then
            check_mark @ '' LOW RISK: Area monitored. Safe to proceed.''
          else if s = ''SAFE'' then
            check_mark @ '' SAFE: No objects detected in monitoring zones.''
          else ''Status unknown'')"
  proof -
    consider "s = ''CRITICAL''" | "s = ''HIGH''" | "s = ''MEDIUM''" | "s = ''LOW''" | "s = ''SAFE''"
      | "s \<noteq> ''CRITICAL''" "s \<noteq> ''HIGH''" "s \<noteq> ''MEDIUM''" "s \<noteq> ''LOW''" "s \<noteq> ''SAFE''"
      by blast
    then show ?thesis
    proof cases
      case 1 then show ?thesis by (simp add: dict_get_def alerts_lookup)
    next
      case 2 then show ?thesis by (simp add: dict_get_def alerts_lookup)
    next
      case 3 then show ?thesis by (simp add: dict_get_def alerts_lookup)
    next
      case 4 then show ?thesis by (simp add: dict_get_def alerts_lookup)
    next
      case 5 then show ?thesis by (simp add: dict_get_def alerts_lookup)
    next
      case 6 then show ?thesis by (simp add: dict_get_def alerts_lookup)
    qed
  qed
  ultimately show ?thesis by (simp only: Str py_value.inject)
qed

theorem alert_text_witness:
  "getitem [(''overall_risk'', Str ''MEDIUM'')] ''overall_risk'' = Inr (Str ''MEDIUM'') \<and>
   generate_alert_message [(''overall_risk'', Str ''MEDIUM'')] =
     Inr (high_voltage_sign @ '' CAUTION: Object detected nearby. Monitor before dumping.'')"
proof -
  have h: "getitem [(''overall_risk'', Str ''MEDIUM'')] ''overall_risk'' = Inr (Str ''MEDIUM'')"
    by (simp add: getitem_def)
  have "generate_alert_message [(''overall_risk'', Str ''MEDIUM'')] =
     Inr (high_voltage_sign @ '' CAUTION: Object detected nearby. Monitor before dumping.'')"
    by (simp add: alert_text [OF h])
  with h show ?thesis by (rule conjI)
qed

text \<open>
  The claim as it is written gives the text for CRITICAL without its leading symbol; the
  function does not return that string.
\<close>

theorem alert_text_counterexample:
  "generate_alert_message [(''overall_risk'', Str ''CRITICAL'')] \<noteq>
     Inr ''CRITICAL ALERT: Object detected in immediate vicinity! STOP DUMPING!''"
  by code_simp


section \<open>C10: the order of the detections\<close>

text \<open>
  Claim C10. For a list of detections that carry a number under \<^verbatim>\<open>hazard_score\<close>, every
  permutation of the list gives the same result of \<open>calculate_zone_risk\<close>: the same
  \<^verbatim>\<open>overall_risk\<close>, \<^verbatim>\<open>max_hazard_score\<close>, counts, \<^verbatim>\<open>total_objects\<close> and recommendation.
\<close>

theorem zone_risk_order_insensitive:
  assumes "map hazard_score detections = map Inr scores"
    and "mset detections' = mset detections"
  shows "calculate_zone_risk detections' image_shape = calculate_zone_risk detections image_shape
       \<and> (\<exists>r. calculate_zone_risk detections image_shape = Inr r)"
proof -
  obtain scores' where "map hazard_score detections' = map Inr scores'"
    and "mset scores' = mset scores"
    using scores_of_permutation [OF assms] by blast
  with assms(1) have "calculate_zone_risk detections' image_shape
      = calculate_zone_risk detections image_shape"
    by (intro zone_risk_mset)
  then show ?thesis using zone_risk_total [OF assms(1)] by simp
qed

theorem zone_risk_order_insensitive_witness:
  "map hazard_score [[(''hazard_score'', Num 85)], [(''hazard_score'', Num 62)],
                     [(''hazard_score'', Num 30)]] = map Inr [85, 62, 30]
   \<and> mset [[(''hazard_score'', Num 30)], [(''hazard_score'', Num 85)],
            [(''hazard_score'', Num 62)]]
       = mset [[(''hazard_score'', Num 85)], [(''hazard_score'', Num 62)],
               [(''hazard_score'', Num 30)]]
   \<and> calculate_zone_risk [[(''hazard_score'', Num 30)], [(''hazard_score'', Num 85)],
                           [(''hazard_score'', Num 62)]] [1000, 1000, 3]
       = calculate_zone_risk [[(''hazard_score'', Num 85)], [(''hazard_score'', Num 62)],
                              [(''hazard_score'', Num 30)]] [1000, 1000, 3]
   \<and> (\<exists>r. calculate_zone_risk [[(''hazard_score'', Num 85)], [(''hazard_score'', Num 62)],
                                 [(''hazard_score'', Num 30)]] [1000, 1000, 3] = Inr r)"
proof -
  have a: "map hazard_score [[(''hazard_score'', Num 85)], [(''hazard_score'', Num 62)],
                     [(''hazard_score'', Num 30)]] = map Inr [85, 62, 30]"
    by (simp add: hazard_score_def getitem_def)
  have b: "mset [[(''hazard_score'', Num 30)], [(''hazard_score'', Num 85)],
            [(''hazard_score'', Num 62)]]
       = mset [[(''hazard_score'', Num 85)], [(''hazard_score'', Num 62)],
               [(''hazard_score'', Num 30)]]"
    by simp
  show ?thesis
    using a b zone_risk_order_insensitive [OF a b, of "[1000, 1000, 3]"] by simp
qed

end
